theory Spec2Isabelle
  imports Main
begin

section \<open>The SeatBooking durable object of src/index.ts\<close>

text \<open>
  The object owns a private SQLite database (\<open>this.ctx.storage.sql\<close>) and the set of
  accepted WebSockets (\<open>this.ctx.getWebSockets()\<close>). Every method runs to completion
  before the next request is looked at, so a method is a function from the state before
  to an outcome and the state after. An exception leaves the writes made before it in
  place: the source opens no transaction.
\<close>

subsection \<open>Data\<close>

text \<open>
  A row of table \<open>seats (seatId TEXT PRIMARY KEY, occupant TEXT)\<close>: the key and the
  nullable occupant, \<open>None\<close> for SQL \<open>NULL\<close>. The database is the list of its tables
  in the order \<open>PRAGMA table_list\<close> reports them, each with its rows in rowid order.
  Tables other than \<open>seats\<close> belong to the engine or the platform; only their names
  matter here.
\<close>

type_synonym row = "string \<times> string option"

type_synonym database = "(string \<times> row list) list"

datatype exn =
    TypeError           \<comment> \<open>property read on \<open>undefined\<close> or \<open>null\<close>\<close>
  | SyntaxError         \<comment> \<open>\<open>request.json()\<close> on a body that is not JSON\<close>
  | SqlNoSuchTable      \<comment> \<open>statement on a table that does not exist\<close>
  | SqlConstraint       \<comment> \<open>\<open>INSERT\<close> of an existing primary key\<close>
  | SendError           \<comment> \<open>\<open>ws.send\<close> raised\<close>

text \<open>
  A WebSocket as the object sees it: the messages pushed to it so far, and whether its
  \<open>send\<close> raises (the connection layer decides that, not this program).
\<close>

record websocket =
  received :: "string list"
  send_raises :: bool

record response =
  status :: nat
  body :: string
  headers :: "(string \<times> string) list"
  webSocket :: bool

text \<open>
  The object's state. \<open>getSeats_calls\<close> is a ghost counter: the number of times
  \<open>getSeats\<close> has run (each run is one \<open>SELECT\<close> and one \<open>JSON.stringify\<close>). The
  field \<open>seats: Map<string, boolean>\<close> of the class is never read or written and is
  left out.
\<close>

record partition =
  sql :: database
  sockets :: "websocket list"
  getSeats_calls :: nat

subsection \<open>The SQL statements the source executes\<close>

definition table_list :: "database \<Rightarrow> string list" where
  \<comment> \<open>\<open>PRAGMA table_list\<close>, the \<open>name\<close> column\<close>
  "table_list db = map fst db"

definition seats_rows :: "database \<Rightarrow> row list option" where
  "seats_rows db = map_of db ''seats''"

fun put_seats :: "row list \<Rightarrow> database \<Rightarrow> database" where
  "put_seats rs [] = []"
| "put_seats rs ((n, old) # ts) =
     (if n = ''seats'' then (n, rs) # ts else (n, old) # put_seats rs ts)"

definition create_table_seats :: "nat \<Rightarrow> database \<Rightarrow> database" where
  \<comment> \<open>\<open>CREATE TABLE IF NOT EXISTS seats (seatId TEXT PRIMARY KEY, occupant TEXT)\<close>.
      Where \<open>PRAGMA table_list\<close> lists a new table is the engine's choice: \<open>pos\<close> is
      the number of tables listed before it\<close>
  "create_table_seats pos db =
     (if ''seats'' \<in> set (table_list db) then db
      else take pos db @ (''seats'', []) # drop pos db)"

definition insert_seat :: "string \<Rightarrow> database \<Rightarrow> exn + database" where
  \<comment> \<open>\<open>INSERT INTO seats VALUES (?, null)\<close>\<close>
  "insert_seat seatNumber db =
     (case seats_rows db of
        None \<Rightarrow> Inl SqlNoSuchTable
      | Some rs \<Rightarrow>
          if seatNumber \<in> set (map fst rs) then Inl SqlConstraint
          else Inr (put_seats (rs @ [(seatNumber, None)]) db))"

definition select_occupant :: "string \<Rightarrow> database \<Rightarrow> exn + string option list" where
  \<comment> \<open>\<open>SELECT occupant FROM seats WHERE seatId = ?\<close>: the cursor's rows\<close>
  "select_occupant seatId db =
     (case seats_rows db of
        None \<Rightarrow> Inl SqlNoSuchTable
      | Some rs \<Rightarrow> Inr (map snd (filter (\<lambda>r. fst r = seatId) rs)))"

definition clear_occupant :: "string \<Rightarrow> row list \<Rightarrow> row list" where
  "clear_occupant occupant rs =
     map (\<lambda>r. if snd r = Some occupant then (fst r, None) else r) rs"

definition set_occupant :: "string \<Rightarrow> string \<Rightarrow> row list \<Rightarrow> row list" where
  "set_occupant occupant seatId rs =
     map (\<lambda>r. if fst r = seatId then (fst r, Some occupant) else r) rs"

definition update_clear :: "string \<Rightarrow> database \<Rightarrow> exn + database" where
  \<comment> \<open>\<open>UPDATE seats SET occupant = null WHERE occupant = ?\<close>\<close>
  "update_clear occupant db =
     (case seats_rows db of
        None \<Rightarrow> Inl SqlNoSuchTable
      | Some rs \<Rightarrow> Inr (put_seats (clear_occupant occupant rs) db))"

definition update_assign :: "string \<Rightarrow> string \<Rightarrow> database \<Rightarrow> exn + database" where
  \<comment> \<open>\<open>UPDATE seats SET occupant = ? WHERE seatId = ?\<close>\<close>
  "update_assign occupant seatId db =
     (case seats_rows db of
        None \<Rightarrow> Inl SqlNoSuchTable
      | Some rs \<Rightarrow> Inr (put_seats (set_occupant occupant seatId rs) db))"

definition select_all :: "database \<Rightarrow> exn + row list" where
  \<comment> \<open>\<open>SELECT seatId, occupant FROM seats\<close>\<close>
  "select_all db =
     (case seats_rows db of None \<Rightarrow> Inl SqlNoSuchTable | Some rs \<Rightarrow> Inr rs)"

subsection \<open>initializeSeats\<close>

fun digit_char :: "nat \<Rightarrow> char" where
  "digit_char n = char_of (48 + n)"

function decimal :: "nat \<Rightarrow> string" where
  \<comment> \<open>a number in a template literal: its decimal digits\<close>
  "decimal n = (if n < 10 then [digit_char n] else decimal (n div 10) @ [digit_char (n mod 10)])"
  by pat_completeness auto
termination
  by (relation "measure id") auto

definition seatNumber_of :: "nat \<Rightarrow> nat \<Rightarrow> string" where
  \<comment> \<open>\<open>`${row}${String.fromCharCode(65 + col)}`\<close>\<close>
  "seatNumber_of row col = decimal row @ [char_of (65 + col)]"

function col_loop :: "nat \<Rightarrow> nat \<Rightarrow> database \<Rightarrow> exn option \<times> database" where
  \<comment> \<open>\<open>for (let col = 0; col < 6; col++)\<close>, entered at \<open>col\<close>\<close>
  "col_loop row col db =
     (if col < 6 then
        (case insert_seat (seatNumber_of row col) db of
           Inl e \<Rightarrow> (Some e, db)
         | Inr db' \<Rightarrow> col_loop row (col + 1) db')
      else (None, db))"
  by pat_completeness auto
termination
  by (relation "measure (\<lambda>(row, col, db). 6 - col)") auto

function row_loop :: "nat \<Rightarrow> database \<Rightarrow> exn option \<times> database" where
  \<comment> \<open>\<open>for (let row = 1; row <= 10; row++)\<close>, entered at \<open>row\<close>\<close>
  "row_loop row db =
     (if row \<le> 10 then
        (case col_loop row 0 db of
           (Some e, db') \<Rightarrow> (Some e, db')
         | (None, db') \<Rightarrow> row_loop (row + 1) db')
      else (None, db))"
  by pat_completeness auto
termination
  by (relation "measure (\<lambda>(row, db). 11 - row)") auto

definition initializeSeats :: "nat \<Rightarrow> database \<Rightarrow> exn option \<times> database" where
  \<comment> \<open>\<open>pos\<close>: where the engine lists the table if this call creates it\<close>
  "initializeSeats pos db =
     (case table_list db of
        [] \<Rightarrow> (Some TypeError, db)
      | name # _ \<Rightarrow>
          if name = ''seats'' then (None, db)
          else row_loop 1 (create_table_seats pos db))"

declare decimal.simps [simp del] col_loop.simps [simp del] row_loop.simps [simp del]

text \<open>The seeded layout: what the two loops insert, in order.\<close>

definition seed_ids :: "string list" where
  "seed_ids = concat (map (\<lambda>row. map (seatNumber_of row) [0..<6]) [1..<11])"

definition seed_rows :: "row list" where
  "seed_rows = map (\<lambda>s. (s, None)) seed_ids"

fun insert_all :: "string list \<Rightarrow> database \<Rightarrow> exn option \<times> database" where
  "insert_all [] db = (None, db)"
| "insert_all (s # ss) db =
     (case insert_seat s db of Inl e \<Rightarrow> (Some e, db) | Inr db' \<Rightarrow> insert_all ss db')"

subsection \<open>getSeats and JSON.stringify\<close>

text \<open>
  \<open>JSON.stringify\<close> on a string quotes it and escapes the quote, the backslash and the
  control characters; on the array \<open>results\<close> it writes the objects with their two
  properties in insertion order. A \<open>char\<close> stands for a code unit below 256.
\<close>

definition hex_digit :: "nat \<Rightarrow> char" where
  "hex_digit n = (if n < 10 then char_of (48 + n) else char_of (87 + n))"

definition json_escape :: "char \<Rightarrow> string" where
  "json_escape c =
     (let n = (of_char c :: nat) in
      if n = 8 then [CHR 0x5C, CHR ''b'']
      else if n = 9 then [CHR 0x5C, CHR ''t'']
      else if n = 10 then [CHR 0x5C, CHR ''n'']
      else if n = 12 then [CHR 0x5C, CHR ''f'']
      else if n = 13 then [CHR 0x5C, CHR ''r'']
      else if n = 34 then [CHR 0x5C, CHR 0x22]
      else if n = 92 then [CHR 0x5C, CHR 0x5C]
      else if n < 32 then
        [CHR 0x5C, CHR ''u'', CHR ''0'', CHR ''0'', hex_digit (n div 16), hex_digit (n mod 16)]
      else [c])"

definition json_string :: "string \<Rightarrow> string" where
  "json_string s = CHR 0x22 # concat (map json_escape s) @ [CHR 0x22]"

definition json_seat :: "row \<Rightarrow> string" where
  \<comment> \<open>\<open>{ seatNumber: row.seatId, occupant: row.occupant }\<close>, stringified\<close>
  "json_seat r =
     ''{'' @ json_string ''seatNumber'' @ '':'' @ json_string (fst r) @ '','' @
     json_string ''occupant'' @ '':'' @
     (case snd r of None \<Rightarrow> ''null'' | Some occupant \<Rightarrow> json_string occupant) @ ''}''"

fun join_commas :: "string list \<Rightarrow> string" where
  "join_commas [] = []"
| "join_commas [x] = x"
| "join_commas (x # y # ys) = x @ '','' @ join_commas (y # ys)"

definition json_array :: "string list \<Rightarrow> string" where
  "json_array items = ''['' @ join_commas items @ '']''"

definition snapshot :: "row list \<Rightarrow> string" where
  "snapshot rs = json_array (map json_seat rs)"

definition getSeats :: "partition \<Rightarrow> (exn + string) \<times> partition" where
  "getSeats p =
     (let p1 = p\<lparr>getSeats_calls := getSeats_calls p + 1\<rparr> in
      case select_all (sql p1) of
        Inl e \<Rightarrow> (Inl e, p1)
      | Inr results \<Rightarrow> (Inr (snapshot results), p1))"

subsection \<open>broadcastSeats\<close>

definition ws_send :: "websocket \<Rightarrow> string \<Rightarrow> exn + websocket" where
  "ws_send ws msg =
     (if send_raises ws then Inl SendError
      else Inr (ws\<lparr>received := received ws @ [msg]\<rparr>))"

definition pushed :: "string \<Rightarrow> websocket \<Rightarrow> websocket" where
  \<comment> \<open>a socket after one successful \<open>send\<close>\<close>
  "pushed msg ws = ws\<lparr>received := received ws @ [msg]\<rparr>"

text \<open>
  \<open>this.ctx.getWebSockets().forEach((ws) => ws.send(this.getSeats()))\<close>: for each
  socket in turn the argument \<open>this.getSeats()\<close> is evaluated, then sent. Nothing
  catches an exception, so the first one ends the loop. The result is the exception, if
  any, the sockets as they are then, and the state.
\<close>

fun forEach_send ::
  "websocket list \<Rightarrow> partition \<Rightarrow> exn option \<times> websocket list \<times> partition" where
  "forEach_send [] p = (None, [], p)"
| "forEach_send (ws # rest) p =
     (case getSeats p of
        (Inl e, p1) \<Rightarrow> (Some e, ws # rest, p1)
      | (Inr payload, p1) \<Rightarrow>
          (case ws_send ws payload of
             Inl e \<Rightarrow> (Some e, ws # rest, p1)
           | Inr ws' \<Rightarrow>
               (case forEach_send rest p1 of (r, rest', p2) \<Rightarrow> (r, ws' # rest', p2))))"

definition broadcastSeats :: "partition \<Rightarrow> exn option \<times> partition" where
  "broadcastSeats p =
     (case forEach_send (sockets p) p of (r, wss, p') \<Rightarrow> (r, p'\<lparr>sockets := wss\<rparr>))"

subsection \<open>assignSeat\<close>

definition seat_not_available :: response where
  \<comment> \<open>\<open>new Response('Seat not available', { status: 400 })\<close>\<close>
  "seat_not_available =
     \<lparr>status = 400, body = ''Seat not available'', headers = [], webSocket = False\<rparr>"

definition booked :: "string \<Rightarrow> response" where
  \<comment> \<open>\<open>new Response(`Seat ${seatId} booked successfully`)\<close>\<close>
  "booked seatId =
     \<lparr>status = 200, body = ''Seat '' @ seatId @ '' booked successfully'', headers = [],
      webSocket = False\<rparr>"

definition assignSeat :: "string \<Rightarrow> string \<Rightarrow> partition \<Rightarrow> (exn + response) \<times> partition" where
  "assignSeat seatId occupant p =
     (case select_occupant seatId (sql p) of
        Inl e \<Rightarrow> (Inl e, p)
      | Inr cursor \<Rightarrow>
          (case cursor of
             [] \<Rightarrow> (Inr seat_not_available, p)
           | result # _ \<Rightarrow>
               if result \<noteq> None then (Inr seat_not_available, p)
               else
                 (case update_clear occupant (sql p) of
                    Inl e \<Rightarrow> (Inl e, p)
                  | Inr db1 \<Rightarrow>
                      (case update_assign occupant seatId db1 of
                         Inl e \<Rightarrow> (Inl e, p\<lparr>sql := db1\<rparr>)
                       | Inr db2 \<Rightarrow>
                           (case broadcastSeats (p\<lparr>sql := db2\<rparr>) of
                              (Some e, p') \<Rightarrow> (Inl e, p')
                            | (None, p') \<Rightarrow> (Inr (booked seatId), p'))))))"

subsection \<open>handleWebSocket and fetch\<close>

definition handleWebSocket :: "partition \<Rightarrow> (exn + response) \<times> partition" where
  \<comment> \<open>\<open>acceptWebSocket(server)\<close> registers the new socket, which \<open>getWebSockets()\<close>
      lists before the older ones; nothing is sent to it\<close>
  "handleWebSocket p =
     (Inr \<lparr>status = 101, body = [], headers = [], webSocket = True\<rparr>,
      p\<lparr>sockets := \<lparr>received = [], send_raises = False\<rparr> # sockets p\<rparr>)"

text \<open>
  \<open>fetch\<close> takes the parsed body \<open>as { seatNumber: string; name: string }\<close>, a cast
  that is erased at run time: a property the body does not have is \<open>undefined\<close>, and
  \<open>assignSeat\<close> runs on whatever the two properties are. A property is modelled as
  missing, \<open>null\<close> or a string; numbers, booleans, arrays and objects as property
  values are left out.
\<close>

datatype jsval = Undefined | Null | Str string

definition sql_bind :: "jsval \<Rightarrow> string option" where
  \<comment> \<open>a binding of \<open>sql.exec\<close>: \<open>undefined\<close> and \<open>null\<close> are bound as SQL \<open>NULL\<close>\<close>
  "sql_bind v = (case v of Str s \<Rightarrow> Some s | _ \<Rightarrow> None)"

definition template :: "jsval \<Rightarrow> string" where
  \<comment> \<open>a value in a template literal\<close>
  "template v = (case v of Undefined \<Rightarrow> ''undefined'' | Null \<Rightarrow> ''null'' | Str s \<Rightarrow> s)"

text \<open>
  The three statements of \<open>assignSeat\<close> with a binding that may be \<open>NULL\<close>. In SQL
  \<open>column = ?\<close> holds of a row only when the binding is not \<open>NULL\<close> and equals the
  column, so a \<open>NULL\<close> binding selects no row.
\<close>

definition select_occupant_bound :: "string option \<Rightarrow> database \<Rightarrow> exn + string option list" where
  "select_occupant_bound seatId db =
     (case seats_rows db of
        None \<Rightarrow> Inl SqlNoSuchTable
      | Some rs \<Rightarrow> Inr (map snd (filter (\<lambda>r. Some (fst r) = seatId) rs)))"

definition update_clear_bound :: "string option \<Rightarrow> database \<Rightarrow> exn + database" where
  "update_clear_bound occupant db =
     (case seats_rows db of
        None \<Rightarrow> Inl SqlNoSuchTable
      | Some rs \<Rightarrow>
          Inr (put_seats
                (map (\<lambda>r. if occupant \<noteq> None \<and> snd r = occupant then (fst r, None) else r) rs)
                db))"

definition update_assign_bound :: "string option \<Rightarrow> string option \<Rightarrow> database \<Rightarrow> exn + database" where
  "update_assign_bound occupant seatId db =
     (case seats_rows db of
        None \<Rightarrow> Inl SqlNoSuchTable
      | Some rs \<Rightarrow>
          Inr (put_seats (map (\<lambda>r. if Some (fst r) = seatId then (fst r, occupant) else r) rs) db))"

definition assignSeat_untyped ::
  "jsval \<Rightarrow> jsval \<Rightarrow> partition \<Rightarrow> (exn + response) \<times> partition" where
  \<comment> \<open>\<open>assignSeat\<close> as \<open>fetch\<close> calls it; on two strings it is \<open>assignSeat\<close> above\<close>
  "assignSeat_untyped seatId occupant p =
     (case select_occupant_bound (sql_bind seatId) (sql p) of
        Inl e \<Rightarrow> (Inl e, p)
      | Inr cursor \<Rightarrow>
          (case cursor of
             [] \<Rightarrow> (Inr seat_not_available, p)
           | result # _ \<Rightarrow>
               if result \<noteq> None then (Inr seat_not_available, p)
               else
                 (case update_clear_bound (sql_bind occupant) (sql p) of
                    Inl e \<Rightarrow> (Inl e, p)
                  | Inr db1 \<Rightarrow>
                      (case update_assign_bound (sql_bind occupant) (sql_bind seatId) db1 of
                         Inl e \<Rightarrow> (Inl e, p\<lparr>sql := db1\<rparr>)
                       | Inr db2 \<Rightarrow>
                           (case broadcastSeats (p\<lparr>sql := db2\<rparr>) of
                              (Some e, p') \<Rightarrow> (Inl e, p')
                            | (None, p') \<Rightarrow> (Inr (booked (template seatId)), p'))))))"

text \<open>
  What \<open>await request.json()\<close> gives. It rejects with a \<open>SyntaxError\<close> when the body
  is not JSON. Destructuring \<open>{ seatNumber, name }\<close> from the value \<open>null\<close> raises a
  \<open>TypeError\<close>; from any other value it reads the two properties, both \<open>undefined\<close>
  for \<open>{}\<close> and for a value that is not an object.
\<close>

datatype json_body =
    NotJson             \<comment> \<open>the body is not JSON\<close>
  | JsonNull            \<comment> \<open>the body is \<open>null\<close>\<close>
  | Json jsval jsval    \<comment> \<open>any other value: its \<open>seatNumber\<close> and its \<open>name\<close>\<close>

record request =
  httpMethod :: string    \<comment> \<open>\<open>request.method\<close>\<close>
  pathname :: string
  upgrade :: "string option"
  json :: json_body

definition not_found :: response where
  "not_found = \<lparr>status = 404, body = ''Not found'', headers = [], webSocket = False\<rparr>"

definition fetch :: "request \<Rightarrow> partition \<Rightarrow> (exn + response) \<times> partition" where
  "fetch req p =
     (if httpMethod req = ''GET'' \<and> pathname req = ''/seats'' then
        (case getSeats p of
           (Inl e, p1) \<Rightarrow> (Inl e, p1)
         | (Inr seats, p1) \<Rightarrow>
             (Inr \<lparr>status = 200, body = json_string seats,
                   headers = [(''Content-Type'', ''application/json'')], webSocket = False\<rparr>,
              p1))
      else if httpMethod req = ''POST'' \<and> pathname req = ''/book-seat'' then
        (case json req of
           NotJson \<Rightarrow> (Inl SyntaxError, p)
         | JsonNull \<Rightarrow> (Inl TypeError, p)
         | Json seatNumber name \<Rightarrow> assignSeat_untyped seatNumber name p)
      else if upgrade req = Some ''websocket'' then handleWebSocket p
      else (Inr not_found, p))"

subsection \<open>Sequences of bookings\<close>

fun run_bookings :: "(string \<times> string) list \<Rightarrow> partition \<Rightarrow> partition" where
  "run_bookings [] p = p"
| "run_bookings ((seatId, occupant) # bs) p = run_bookings bs (snd (assignSeat seatId occupant p))"

definition occupant_of :: "partition \<Rightarrow> string \<Rightarrow> string option option" where
  \<comment> \<open>the occupant column of a seat: \<open>None\<close> when there is no such seat\<close>
  "occupant_of p seatId =
     (case seats_rows (sql p) of None \<Rightarrow> None | Some rs \<Rightarrow> map_of rs seatId)"

definition occupant_unique :: "row list \<Rightarrow> bool" where
  \<comment> \<open>no occupant is in two rows\<close>
  "occupant_unique rs = distinct (filter (\<lambda>occ. occ \<noteq> None) (map snd rs))"

subsection \<open>States and requests used as examples\<close>

definition reseat_state :: partition where
  "reseat_state =
     \<lparr>sql = [(''seats'', [(''1A'', Some ''Alice''), (''2A'', None)])],
      sockets = [\<lparr>received = [], send_raises = False\<rparr>],
      getSeats_calls = 0\<rparr>"

definition reseat_state_dead_socket :: partition where
  "reseat_state_dead_socket =
     \<lparr>sql = [(''seats'', [(''1A'', Some ''Alice''), (''2A'', None)])],
      sockets = [\<lparr>received = [], send_raises = True\<rparr>],
      getSeats_calls = 0\<rparr>"

definition two_subscribers :: partition where
  "two_subscribers =
     \<lparr>sql = [(''seats'', [(''1A'', None)])],
      sockets = [\<lparr>received = [], send_raises = False\<rparr>, \<lparr>received = [], send_raises = False\<rparr>],
      getSeats_calls = 0\<rparr>"

definition first_send_fails :: partition where
  "first_send_fails =
     \<lparr>sql = [(''seats'', [(''1A'', None)])],
      sockets = [\<lparr>received = [], send_raises = True\<rparr>, \<lparr>received = [], send_raises = False\<rparr>],
      getSeats_calls = 0\<rparr>"

definition get_seats_request :: request where
  "get_seats_request = \<lparr>httpMethod = ''GET'', pathname = ''/seats'', upgrade = None, json = NotJson\<rparr>"

definition one_seat :: partition where
  "one_seat = \<lparr>sql = [(''seats'', [(''1A'', None)])], sockets = [], getSeats_calls = 0\<rparr>"

definition free_1A :: partition where
  "free_1A =
     \<lparr>sql = [(''seats'', [(''1A'', None), (''1B'', Some ''Bob'')])],
      sockets = [\<lparr>received = [], send_raises = False\<rparr>], getSeats_calls = 0\<rparr>"

section \<open>Properties\<close>

subsection \<open>The table in the database\<close>

lemma seats_rows_put_seats:
  "seats_rows (put_seats rs db) = (case seats_rows db of None \<Rightarrow> None | Some _ \<Rightarrow> Some rs)"
  by (induction db) (auto simp: seats_rows_def)

lemma table_list_put_seats: "table_list (put_seats rs db) = table_list db"
  by (induction db) (auto simp: table_list_def)

lemma put_seats_twice: "put_seats rs (put_seats rs' db) = put_seats rs db"
  by (induction db) auto

lemma put_seats_same: "seats_rows db = Some rs \<Longrightarrow> put_seats rs db = db"
  by (induction db) (auto simp: seats_rows_def split: if_splits)

lemma seats_listed: "(''seats'' \<in> set (table_list db)) = (seats_rows db \<noteq> None)"
  by (simp add: seats_rows_def table_list_def map_of_eq_None_iff)

lemma seats_rows_create_table:
  "seats_rows (create_table_seats pos db) =
     (case seats_rows db of None \<Rightarrow> Some [] | Some rs \<Rightarrow> Some rs)"
proof (cases "seats_rows db")
  case None
  then have absent: "''seats'' \<notin> fst ` set db"
    by (simp add: seats_rows_def map_of_eq_None_iff)
  then have "''seats'' \<notin> fst ` set (take pos db)"
    by (meson image_mono in_mono set_take_subset)
  then have "map_of (take pos db) ''seats'' = None"
    by (simp add: map_of_eq_None_iff)
  then show ?thesis
    using None absent
    by (simp add: create_table_seats_def table_list_def seats_rows_def map_add_def)
next
  case (Some rs)
  then show ?thesis
    by (simp add: create_table_seats_def seats_listed)
qed

subsection \<open>Seeding\<close>

lemma insert_all_append:
  "insert_all (xs @ ys) db =
     (case insert_all xs db of (Some e, db') \<Rightarrow> (Some e, db') | (None, db') \<Rightarrow> insert_all ys db')"
  by (induction xs arbitrary: db) (auto split: sum.splits)

lemma col_loop_insert_all:
  "col_loop row col db = insert_all (map (seatNumber_of row) [col..<6]) db"
proof (induction row col db rule: col_loop.induct)
  case (1 row col db)
  show ?case
  proof (cases "col < 6")
    case True
    then have "[col..<6] = col # [col + 1..<6]"
      by (simp add: upt_rec)
    with True 1 show ?thesis
      by (subst col_loop.simps) (simp split: sum.splits)
  next
    case False
    then show ?thesis
      by (subst col_loop.simps) simp
  qed
qed

lemma row_loop_insert_all:
  "row_loop row db =
     insert_all (concat (map (\<lambda>r. map (seatNumber_of r) [0..<6]) [row..<11])) db"
proof (induction row db rule: row_loop.induct)
  case (1 row db)
  show ?case
  proof (cases "row \<le> 10")
    case True
    then have "[row..<11] = row # [row + 1..<11]"
      by (simp add: upt_rec)
    with True 1 show ?thesis
      by (subst row_loop.simps)
         (auto simp: insert_all_append col_loop_insert_all split: prod.splits option.splits)
  next
    case False
    then show ?thesis
      by (subst row_loop.simps) simp
  qed
qed

lemma insert_all_fresh:
  "seats_rows db = Some rs \<Longrightarrow> distinct ss \<Longrightarrow> set ss \<inter> fst ` set rs = {} \<Longrightarrow>
   insert_all ss db = (None, put_seats (rs @ map (\<lambda>s. (s, None)) ss) db)"
proof (induction ss arbitrary: rs db)
  case Nil
  then show ?case by (simp add: put_seats_same)
next
  case (Cons s ss)
  let ?rs1 = "rs @ [(s, None)]"
  have rows1: "seats_rows (put_seats ?rs1 db) = Some ?rs1"
    using Cons.prems(1) by (simp add: seats_rows_put_seats)
  have "insert_all ss (put_seats ?rs1 db) =
      (None, put_seats (?rs1 @ map (\<lambda>s. (s, None)) ss) (put_seats ?rs1 db))"
    using Cons.prems(2,3) by (intro Cons.IH [OF rows1]) auto
  then show ?case
    using Cons.prems by (auto simp: insert_seat_def put_seats_twice)
qed

lemma seed_ids_eval: "seed_ids = [''1A'', ''1B'', ''1C'', ''1D'', ''1E'', ''1F'', ''2A'', ''2B'', ''2C'',
  ''2D'', ''2E'', ''2F'', ''3A'', ''3B'', ''3C'', ''3D'', ''3E'', ''3F'',
  ''4A'', ''4B'', ''4C'', ''4D'', ''4E'', ''4F'', ''5A'', ''5B'', ''5C'',
  ''5D'', ''5E'', ''5F'', ''6A'', ''6B'', ''6C'', ''6D'', ''6E'', ''6F'',
  ''7A'', ''7B'', ''7C'', ''7D'', ''7E'', ''7F'', ''8A'', ''8B'', ''8C'',
  ''8D'', ''8E'', ''8F'', ''9A'', ''9B'', ''9C'', ''9D'', ''9E'', ''9F'',
  ''10A'', ''10B'', ''10C'', ''10D'', ''10E'', ''10F'']"
  by code_simp

lemma distinct_seed_ids: "distinct seed_ids"
  unfolding seed_ids_eval by simp

lemma row_loop_seeds:
  "seats_rows db = Some [] \<Longrightarrow> row_loop 1 db = (None, put_seats seed_rows db)"
  using insert_all_fresh [OF _ distinct_seed_ids, of db "[]"]
  by (simp add: row_loop_insert_all seed_rows_def seed_ids_def)

lemma initializeSeats_fresh:
  assumes "db \<noteq> []" and "''seats'' \<notin> set (table_list db)"
  shows "initializeSeats pos db = (None, put_seats seed_rows (create_table_seats pos db))"
proof -
  have "seats_rows (create_table_seats pos db) = Some []"
    using assms(2) by (simp add: seats_rows_create_table seats_listed)
  from row_loop_seeds [OF this] show ?thesis
    using assms by (cases db) (auto simp: initializeSeats_def table_list_def)
qed

lemma initializeSeats_fresh_rows:
  assumes "db \<noteq> []" and "''seats'' \<notin> set (table_list db)"
  shows "seats_rows (snd (initializeSeats pos db)) = Some seed_rows"
  using assms(2)
  by (simp add: initializeSeats_fresh [OF assms] seats_rows_put_seats seats_rows_create_table
      seats_listed)

subsection \<open>Statements, bookings and broadcasts\<close>

lemma cursor_first:
  "(case map snd (filter (\<lambda>r. fst r = k) rs) of [] \<Rightarrow> a | x # _ \<Rightarrow> f x) =
   (case map_of rs k of None \<Rightarrow> a | Some v \<Rightarrow> f v)"
  by (induction rs) auto

lemma assignSeat_rows:
  assumes "seats_rows (sql p) = Some rs"
  shows "assignSeat seatId occupant p =
     (case map_of rs seatId of
        None \<Rightarrow> (Inr seat_not_available, p)
      | Some (Some other) \<Rightarrow> (Inr seat_not_available, p)
      | Some None \<Rightarrow>
          (case broadcastSeats
                  (p\<lparr>sql := put_seats (set_occupant occupant seatId (clear_occupant occupant rs))
                                (sql p)\<rparr>) of
             (Some e, p') \<Rightarrow> (Inl e, p')
           | (None, p') \<Rightarrow> (Inr (booked seatId), p')))"
  using assms
  by (simp add: assignSeat_def select_occupant_def update_clear_def update_assign_def
      seats_rows_put_seats put_seats_twice cursor_first split: option.splits)

lemma assignSeat_no_table:
  "seats_rows (sql p) = None \<Longrightarrow> assignSeat seatId occupant p = (Inl SqlNoSuchTable, p)"
  by (simp add: assignSeat_def select_occupant_def)

lemma getSeats_rows:
  "seats_rows (sql p) = Some rs \<Longrightarrow>
   getSeats p = (Inr (snapshot rs), p\<lparr>getSeats_calls := getSeats_calls p + 1\<rparr>)"
  by (simp add: getSeats_def select_all_def)

lemma forEach_send_prefix:
  "seats_rows (sql p) = Some rs \<Longrightarrow> list_all (\<lambda>ws. \<not> send_raises ws) pre \<Longrightarrow>
   forEach_send (pre @ rest) p =
     (case forEach_send rest (p\<lparr>getSeats_calls := getSeats_calls p + length pre\<rparr>) of
        (r, rest', p2) \<Rightarrow> (r, map (pushed (snapshot rs)) pre @ rest', p2))"
proof (induction pre arbitrary: p)
  case Nil
  then show ?case by simp
next
  case (Cons ws pre)
  let ?p1 = "p\<lparr>getSeats_calls := getSeats_calls p + 1\<rparr>"
  have rows1: "seats_rows (sql ?p1) = Some rs"
    using Cons.prems(1) by simp
  have tl_ok: "list_all (\<lambda>ws. \<not> send_raises ws) pre" and hd_ok: "\<not> send_raises ws"
    using Cons.prems(2) by simp_all
  show ?case
    using Cons.IH [OF rows1 tl_ok] hd_ok Cons.prems(1)
    by (simp add: getSeats_rows ws_send_def pushed_def split: prod.splits)
qed

lemma forEach_send_all:
  assumes "seats_rows (sql p) = Some rs" "list_all (\<lambda>ws. \<not> send_raises ws) wss"
  shows "forEach_send wss p =
     (None, map (pushed (snapshot rs)) wss,
      p\<lparr>getSeats_calls := getSeats_calls p + length wss\<rparr>)"
  using forEach_send_prefix [OF assms, of "[]"] by simp

lemma forEach_send_raise:
  assumes "seats_rows (sql p) = Some rs" "list_all (\<lambda>ws. \<not> send_raises ws) pre"
    and "send_raises w"
  shows "forEach_send (pre @ w # post) p =
     (Some SendError, map (pushed (snapshot rs)) pre @ w # post,
      p\<lparr>getSeats_calls := getSeats_calls p + length pre + 1\<rparr>)"
  using forEach_send_prefix [OF assms(1,2), of "w # post"] assms(1,3)
  by (simp add: getSeats_rows ws_send_def)

lemma broadcastSeats_all:
  assumes "seats_rows (sql p) = Some rs" "list_all (\<lambda>ws. \<not> send_raises ws) (sockets p)"
  shows "broadcastSeats p =
     (None, p\<lparr>sockets := map (pushed (snapshot rs)) (sockets p),
               getSeats_calls := getSeats_calls p + length (sockets p)\<rparr>)"
  by (simp add: broadcastSeats_def forEach_send_all [OF assms])

lemma broadcastSeats_raise:
  assumes "seats_rows (sql p) = Some rs" "sockets p = pre @ w # post"
    and "list_all (\<lambda>ws. \<not> send_raises ws) pre" "send_raises w"
  shows "broadcastSeats p =
     (Some SendError, p\<lparr>sockets := map (pushed (snapshot rs)) pre @ w # post,
               getSeats_calls := getSeats_calls p + length pre + 1\<rparr>)"
  by (simp add: broadcastSeats_def assms(2) forEach_send_raise [OF assms(1,3,4)])

lemma forEach_send_sql: "forEach_send wss p = (r, wss', p') \<Longrightarrow> sql p' = sql p"
proof (induction wss arbitrary: p r wss' p')
  case Nil
  then show ?case by simp
next
  case (Cons ws wss)
  then show ?case
    by (fastforce simp: getSeats_def Let_def split: sum.splits prod.splits)
qed

lemma broadcastSeats_sql: "sql (snd (broadcastSeats p)) = sql p"
  by (auto simp: broadcastSeats_def split: prod.splits dest: forEach_send_sql)

lemma assignSeat_sql:
  assumes "seats_rows (sql p) = Some rs"
  shows "seats_rows (sql (snd (assignSeat seatId occupant p))) =
     Some (if map_of rs seatId = Some None
           then set_occupant occupant seatId (clear_occupant occupant rs) else rs)"
proof -
  let ?q = "p\<lparr>sql := put_seats (set_occupant occupant seatId (clear_occupant occupant rs)) (sql p)\<rparr>"
  have "sql (snd (broadcastSeats ?q)) = sql ?q"
    by (rule broadcastSeats_sql)
  then show ?thesis
    using assms
    by (cases "broadcastSeats ?q")
       (auto simp: assignSeat_rows [OF assms] seats_rows_put_seats split: option.splits)
qed

subsection \<open>Rows under the two updates\<close>

lemma map_fst_clear_occupant: "map fst (clear_occupant occupant rs) = map fst rs"
  by (induction rs) (auto simp: clear_occupant_def)

lemma map_fst_set_occupant: "map fst (set_occupant occupant seatId rs) = map fst rs"
  by (induction rs) (auto simp: set_occupant_def)

lemma occupant_unique_Cons:
  "occupant_unique ((k, v) # rs) =
     ((v = None \<or> v \<notin> snd ` set rs) \<and> occupant_unique rs)"
  by (auto simp: occupant_unique_def)

lemma occupants_clear_occupant:
  "snd ` set (clear_occupant occupant rs) \<subseteq> (snd ` set rs - {Some occupant}) \<union> {None}"
  by (auto simp: clear_occupant_def)

lemma occupant_unique_clear:
  "occupant_unique rs \<Longrightarrow> occupant_unique (clear_occupant occupant rs)"
proof (induction rs)
  case Nil
  then show ?case by (simp add: clear_occupant_def)
next
  case (Cons r rs)
  obtain k v where r: "r = (k, v)" by (cases r)
  have tail: "occupant_unique (clear_occupant occupant rs)"
    using Cons by (simp add: r occupant_unique_Cons)
  have head: "v = None \<or> v \<notin> snd ` set rs"
    using Cons.prems by (simp add: r occupant_unique_Cons)
  have "clear_occupant occupant (r # rs) =
      (if v = Some occupant then (k, None) else (k, v)) # clear_occupant occupant rs"
    by (simp add: clear_occupant_def r)
  then show ?case
    using tail head occupants_clear_occupant [of occupant rs]
    by (auto simp: occupant_unique_Cons)
qed

lemma set_occupant_absent:
  "seatId \<notin> fst ` set rs \<Longrightarrow> set_occupant occupant seatId rs = rs"
  by (induction rs) (auto simp: set_occupant_def)

lemma occupants_set_occupant:
  "snd ` set (set_occupant occupant seatId rs) \<subseteq> snd ` set rs \<union> {Some occupant}"
  by (auto simp: set_occupant_def)

lemma occupant_unique_set:
  "distinct (map fst rs) \<Longrightarrow> Some occupant \<notin> snd ` set rs \<Longrightarrow> occupant_unique rs \<Longrightarrow>
   occupant_unique (set_occupant occupant seatId rs)"
proof (induction rs)
  case Nil
  then show ?case by (simp add: set_occupant_def)
next
  case (Cons r rs)
  obtain k v where r: "r = (k, v)" by (cases r)
  show ?case
  proof (cases "k = seatId")
    case True
    then have "seatId \<notin> fst ` set rs"
      using Cons.prems(1) by (auto simp: r)
    then have "set_occupant occupant seatId (r # rs) = (k, Some occupant) # rs"
      using True by (simp add: set_occupant_def r set_occupant_absent [unfolded set_occupant_def])
    then show ?thesis
      using Cons.prems by (auto simp: r occupant_unique_Cons)
  next
    case False
    then have step: "set_occupant occupant seatId (r # rs) = (k, v) # set_occupant occupant seatId rs"
      by (simp add: set_occupant_def r)
    have "occupant_unique (set_occupant occupant seatId rs)"
      using Cons by (auto simp: r occupant_unique_Cons)
    moreover have "v = None \<or> v \<notin> snd ` set (set_occupant occupant seatId rs)"
      using Cons.prems(2,3) occupants_set_occupant [of occupant seatId rs]
      by (auto simp: r occupant_unique_Cons)
    ultimately show ?thesis
      by (simp add: step occupant_unique_Cons)
  qed
qed

lemma clear_occupant_removes: "Some occupant \<notin> snd ` set (clear_occupant occupant rs)"
  by (auto simp: clear_occupant_def)

lemma occupant_unique_pairs:
  "occupant_unique rs \<Longrightarrow> distinct (map fst rs) \<Longrightarrow>
   (s1, Some x) \<in> set rs \<Longrightarrow> (s2, Some x) \<in> set rs \<Longrightarrow> s1 = s2"
proof (induction rs)
  case Nil
  then show ?case by simp
next
  case (Cons r rs)
  obtain k v where r: "r = (k, v)" by (cases r)
  from Cons.prems(1) have head: "v = None \<or> v \<notin> snd ` set rs" and tail: "occupant_unique rs"
    by (simp_all add: r occupant_unique_Cons)
  show ?case
    using Cons.IH [OF tail] Cons.prems(2,3,4) head
    by (force simp: r)
qed

lemma booking_step_rows:
  assumes "seats_rows (sql p) = Some rs" "distinct (map fst rs)" "occupant_unique rs"
  shows "\<exists>rs'. seats_rows (sql (snd (assignSeat seatId occupant p))) = Some rs' \<and>
     map fst rs' = map fst rs \<and> occupant_unique rs'"
proof (cases "map_of rs seatId = Some None")
  case True
  have "distinct (map fst (clear_occupant occupant rs))"
    using assms(2) by (simp add: map_fst_clear_occupant)
  then have "occupant_unique (set_occupant occupant seatId (clear_occupant occupant rs))"
    using occupant_unique_set clear_occupant_removes occupant_unique_clear [OF assms(3)]
    by blast
  then show ?thesis
    using True
    by (simp add: assignSeat_sql [OF assms(1)] map_fst_set_occupant map_fst_clear_occupant)
next
  case False
  then show ?thesis
    using assms by (simp add: assignSeat_sql [OF assms(1)])
qed

lemma run_bookings_rows:
  assumes "seats_rows (sql p) = Some rs" "distinct (map fst rs)" "occupant_unique rs"
  shows "\<exists>rs'. seats_rows (sql (run_bookings bs p)) = Some rs' \<and>
     map fst rs' = map fst rs \<and> occupant_unique rs'"
  using assms
proof (induction bs arbitrary: p rs)
  case Nil
  then show ?case by simp
next
  case (Cons b bs)
  obtain seatId occupant where b: "b = (seatId, occupant)" by (cases b)
  from booking_step_rows [OF Cons.prems]
  obtain rs1 where rs1: "seats_rows (sql (snd (assignSeat seatId occupant p))) = Some rs1"
      "map fst rs1 = map fst rs" "occupant_unique rs1"
    by blast
  then have "distinct (map fst rs1)"
    using Cons.prems(2) by simp
  from Cons.IH [OF rs1(1) this rs1(3)] rs1(2) show ?case
    by (simp add: b)
qed

lemma occupant_unique_seed: "occupant_unique seed_rows"
  by (simp add: occupant_unique_def seed_rows_def filter_empty_conv)

lemma map_fst_seed_rows: "map fst seed_rows = seed_ids"
  by (simp add: seed_rows_def comp_def)

lemma seeded_bookings_rows:
  assumes "db \<noteq> []" "''seats'' \<notin> set (table_list db)"
  shows "\<exists>rs. seats_rows (sql (run_bookings bs
            \<lparr>sql = snd (initializeSeats pos db), sockets = wss, getSeats_calls = n\<rparr>)) = Some rs \<and>
          map fst rs = seed_ids \<and> occupant_unique rs"
proof -
  let ?p = "\<lparr>sql = snd (initializeSeats pos db), sockets = wss, getSeats_calls = n\<rparr>"
  have "seats_rows (sql ?p) = Some seed_rows"
    by (simp add: initializeSeats_fresh_rows [OF assms])
  from run_bookings_rows [OF this] show ?thesis
    by (simp add: map_fst_seed_rows distinct_seed_ids occupant_unique_seed)
qed

subsection \<open>Occupant uniqueness\<close>

text \<open>
  C1. Occupant uniqueness is an invariant. Start from a database that has tables but no
  table \<open>seats\<close>: wherever the engine lists the new table, \<open>initializeSeats\<close>
  returns normally, and after every sequence of
  \<open>assignSeat\<close> calls on the seeded object (whatever each call returns or raises) the
  table \<open>seats\<close> exists, its keys are distinct and no occupant is held by two rows:
  two rows with the same non-null occupant are the same seat. The same holds of the
  table between the two \<open>UPDATE\<close>s of any further booking.
\<close>

theorem occupant_uniqueness_invariant:
  assumes "db \<noteq> []" and "''seats'' \<notin> set (table_list db)"
  shows "fst (initializeSeats pos db) = None \<and>
    (\<forall>bs. \<exists>rs.
       seats_rows (sql (run_bookings bs
          \<lparr>sql = snd (initializeSeats pos db), sockets = wss, getSeats_calls = n\<rparr>)) = Some rs \<and>
       distinct (map fst rs) \<and>
       occupant_unique rs \<and>
       (\<forall>s1 s2 x. (s1, Some x) \<in> set rs \<and> (s2, Some x) \<in> set rs \<longrightarrow> s1 = s2) \<and>
       (\<forall>occupant. occupant_unique (clear_occupant occupant rs)))"
proof (intro conjI allI)
  show "fst (initializeSeats pos db) = None"
    by (simp add: initializeSeats_fresh [OF assms])
next
  fix bs
  let ?p = "run_bookings bs \<lparr>sql = snd (initializeSeats pos db), sockets = wss, getSeats_calls = n\<rparr>"
  from seeded_bookings_rows [OF assms, where bs = bs and wss = wss and n = n and pos = pos]
  obtain rs where rs: "seats_rows (sql ?p) = Some rs" "map fst rs = seed_ids" "occupant_unique rs"
    by blast
  have d: "distinct (map fst rs)"
    by (simp add: rs(2) distinct_seed_ids)
  have "\<forall>s1 s2 x. (s1, Some x) \<in> set rs \<and> (s2, Some x) \<in> set rs \<longrightarrow> s1 = s2"
    using occupant_unique_pairs [OF rs(3) d] by blast
  moreover have "\<forall>occupant. occupant_unique (clear_occupant occupant rs)"
    using occupant_unique_clear [OF rs(3)] by simp
  ultimately show "\<exists>rs. seats_rows (sql ?p) = Some rs \<and> distinct (map fst rs) \<and>
       occupant_unique rs \<and>
       (\<forall>s1 s2 x. (s1, Some x) \<in> set rs \<and> (s2, Some x) \<in> set rs \<longrightarrow> s1 = s2) \<and>
       (\<forall>occupant. occupant_unique (clear_occupant occupant rs))"
    using rs(1,3) d by blast
qed

theorem occupant_uniqueness_invariant_witness:
  "[(''sqlite_schema'', [])] \<noteq> ([] :: database) \<and>
   ''seats'' \<notin> set (table_list [(''sqlite_schema'', [])]) \<and>
   fst (initializeSeats 0 [(''sqlite_schema'', [])]) = None \<and>
   (\<exists>rs. seats_rows (sql (run_bookings [(''1A'', ''Alice''), (''2A'', ''Alice'')]
        \<lparr>sql = snd (initializeSeats 0 [(''sqlite_schema'', [])]), sockets = [],
          getSeats_calls = 0\<rparr>)) = Some rs \<and> occupant_unique rs)"
proof -
  have h1: "[(''sqlite_schema'', [])] \<noteq> ([] :: database)"
    by simp
  have h2: "''seats'' \<notin> set (table_list [(''sqlite_schema'', [])])"
    by (simp add: table_list_def)
  from occupant_uniqueness_invariant [OF h1 h2, where wss = "[]" and n = 0 and pos = 0] h1 h2
  show ?thesis
    by blast
qed

subsection \<open>Rejected bookings\<close>

lemma occupant_of_rows: "seats_rows (sql p) = Some rs \<Longrightarrow> occupant_of p seatId = map_of rs seatId"
  by (simp add: occupant_of_def)

lemma occupant_of_SomeD:
  "occupant_of p seatId = Some v \<Longrightarrow> \<exists>rs. seats_rows (sql p) = Some rs \<and> map_of rs seatId = Some v"
  by (auto simp: occupant_of_def split: option.splits)

text \<open>
  C3. Self-rebooking is rejected. In every state, booking a seat whose occupant column is
  not null returns the 400 response \<open>Seat not available\<close> and leaves the state as it
  was, for every requesting occupant and so also for the one who holds the seat: there
  is no no-op success.
\<close>

theorem occupied_seat_rejected:
  assumes "occupant_of p seatId = Some (Some holder)"
  shows "assignSeat seatId holder p = (Inr seat_not_available, p) \<and>
         assignSeat seatId occupant p = (Inr seat_not_available, p) \<and>
         status seat_not_available = 400"
proof -
  from occupant_of_SomeD [OF assms]
  obtain rs where rs: "seats_rows (sql p) = Some rs" "map_of rs seatId = Some (Some holder)"
    by blast
  show ?thesis
    by (simp add: assignSeat_rows [OF rs(1)] rs(2) seat_not_available_def)
qed

theorem occupied_seat_rejected_witness:
  "occupant_of \<lparr>sql = [(''seats'', [(''1A'', Some ''Alice''), (''1B'', None)])], sockets = [],
                getSeats_calls = 0\<rparr> ''1A'' = Some (Some ''Alice'') \<and>
   assignSeat ''1A'' ''Alice''
     \<lparr>sql = [(''seats'', [(''1A'', Some ''Alice''), (''1B'', None)])], sockets = [],
       getSeats_calls = 0\<rparr> =
   (Inr seat_not_available,
    \<lparr>sql = [(''seats'', [(''1A'', Some ''Alice''), (''1B'', None)])], sockets = [],
      getSeats_calls = 0\<rparr>)"
proof -
  let ?p = "\<lparr>sql = [(''seats'', [(''1A'', Some ''Alice''), (''1B'', None)])], sockets = [],
      getSeats_calls = 0\<rparr>"
  have h: "occupant_of ?p ''1A'' = Some (Some ''Alice'')"
    by (simp add: occupant_of_def seats_rows_def)
  from occupied_seat_rejected [OF h] h show ?thesis
    by simp
qed

text \<open>
  C10. Failed bookings are atomic and silent. Where the table exists, a booking of a
  seat that is not there or that has an occupant returns the 400 response with body
  \<open>Seat not available\<close> and the state unchanged: no row, no socket's received messages
  and no snapshot computed. Conversely a 400 response of \<open>assignSeat\<close> is always that
  one response with the state unchanged, so the two causes cannot be told apart.
\<close>

theorem failed_booking_changes_nothing:
  assumes "seats_rows (sql p) = Some rs"
  shows "(occupant_of p seatId = None \<or> (\<exists>holder. occupant_of p seatId = Some (Some holder))
            \<longrightarrow> assignSeat seatId occupant p = (Inr seat_not_available, p)) \<and>
         (\<forall>r p'. assignSeat seatId occupant p = (Inr r, p') \<and> status r = 400
            \<longrightarrow> r = seat_not_available \<and> p' = p \<and> occupant_of p seatId \<noteq> Some None) \<and>
         status seat_not_available = 400 \<and>
         body seat_not_available = ''Seat not available''"
proof (intro conjI impI allI)
  assume "occupant_of p seatId = None \<or> (\<exists>holder. occupant_of p seatId = Some (Some holder))"
  then show "assignSeat seatId occupant p = (Inr seat_not_available, p)"
    by (auto simp: assignSeat_rows [OF assms] occupant_of_rows [OF assms])
next
  fix r p'
  assume a: "assignSeat seatId occupant p = (Inr r, p') \<and> status r = 400"
  show "r = seat_not_available" "p' = p" "occupant_of p seatId \<noteq> Some None"
    using a
    by (auto simp: assignSeat_rows [OF assms] occupant_of_rows [OF assms] booked_def
        split: option.splits prod.splits)
qed (simp_all add: seat_not_available_def)

theorem failed_booking_changes_nothing_witness:
  "seats_rows (sql \<lparr>sql = [(''seats'', [(''1A'', Some ''Alice''), (''1B'', None)])],
        sockets = [\<lparr>received = [], send_raises = False\<rparr>], getSeats_calls = 0\<rparr>) =
     Some [(''1A'', Some ''Alice''), (''1B'', None)] \<and>
   occupant_of \<lparr>sql = [(''seats'', [(''1A'', Some ''Alice''), (''1B'', None)])],
        sockets = [\<lparr>received = [], send_raises = False\<rparr>], getSeats_calls = 0\<rparr> ''9Z'' = None \<and>
   assignSeat ''9Z'' ''Bob''
     \<lparr>sql = [(''seats'', [(''1A'', Some ''Alice''), (''1B'', None)])],
        sockets = [\<lparr>received = [], send_raises = False\<rparr>], getSeats_calls = 0\<rparr> =
   (Inr seat_not_available,
    \<lparr>sql = [(''seats'', [(''1A'', Some ''Alice''), (''1B'', None)])],
        sockets = [\<lparr>received = [], send_raises = False\<rparr>], getSeats_calls = 0\<rparr>) \<and>
   occupant_of \<lparr>sql = [(''seats'', [(''1A'', Some ''Alice''), (''1B'', None)])],
        sockets = [\<lparr>received = [], send_raises = False\<rparr>], getSeats_calls = 0\<rparr> ''1A'' =
     Some (Some ''Alice'') \<and>
   assignSeat ''1A'' ''Bob''
     \<lparr>sql = [(''seats'', [(''1A'', Some ''Alice''), (''1B'', None)])],
        sockets = [\<lparr>received = [], send_raises = False\<rparr>], getSeats_calls = 0\<rparr> =
   (Inr seat_not_available,
    \<lparr>sql = [(''seats'', [(''1A'', Some ''Alice''), (''1B'', None)])],
        sockets = [\<lparr>received = [], send_raises = False\<rparr>], getSeats_calls = 0\<rparr>)"
proof -
  let ?p = "\<lparr>sql = [(''seats'', [(''1A'', Some ''Alice''), (''1B'', None)])],
        sockets = [\<lparr>received = [], send_raises = False\<rparr>], getSeats_calls = 0\<rparr>"
  have rows: "seats_rows (sql ?p) = Some [(''1A'', Some ''Alice''), (''1B'', None)]"
    by (simp add: seats_rows_def)
  have absent: "occupant_of ?p ''9Z'' = None"
    and taken: "occupant_of ?p ''1A'' = Some (Some ''Alice'')"
    by (simp_all add: occupant_of_def seats_rows_def)
  from failed_booking_changes_nothing [OF rows, of "''9Z''" "''Bob''"] absent
  have 1: "assignSeat ''9Z'' ''Bob'' ?p = (Inr seat_not_available, ?p)"
    by blast
  from failed_booking_changes_nothing [OF rows, of "''1A''" "''Bob''"] taken
  have 2: "assignSeat ''1A'' ''Bob'' ?p = (Inr seat_not_available, ?p)"
    by blast
  from rows absent taken 1 2 show ?thesis
    by blast
qed

text \<open>
  C7. A seat that is not in the seeded layout cannot be booked: on the seeded object,
  after any sequence of bookings, \<open>assignSeat\<close> with such a \<open>seatId\<close> and any occupant
  returns the 400 response and leaves the whole state, the seat table included,
  unchanged.
\<close>

theorem absent_seat_rejected:
  assumes "db \<noteq> []" and "''seats'' \<notin> set (table_list db)" and "seatId \<notin> set seed_ids"
  shows "assignSeat seatId occupant
           (run_bookings bs \<lparr>sql = snd (initializeSeats pos db), sockets = wss, getSeats_calls = n\<rparr>) =
         (Inr seat_not_available,
          run_bookings bs \<lparr>sql = snd (initializeSeats pos db), sockets = wss, getSeats_calls = n\<rparr>) \<and>
         status seat_not_available = 400"
proof -
  let ?p = "run_bookings bs \<lparr>sql = snd (initializeSeats pos db), sockets = wss, getSeats_calls = n\<rparr>"
  from seeded_bookings_rows [OF assms(1,2), where bs = bs and wss = wss and n = n and pos = pos]
  obtain rs where rs: "seats_rows (sql ?p) = Some rs" "map fst rs = seed_ids"
    by blast
  have "seatId \<notin> fst ` set rs"
    using assms(3) rs(2) by (metis set_map)
  then have "map_of rs seatId = None"
    by (simp add: map_of_eq_None_iff)
  then show ?thesis
    by (simp add: assignSeat_rows [OF rs(1)] seat_not_available_def)
qed

theorem absent_seat_rejected_witness:
  "[(''sqlite_schema'', [])] \<noteq> ([] :: database) \<and>
   ''seats'' \<notin> set (table_list [(''sqlite_schema'', [])]) \<and>
   ''9Z'' \<notin> set seed_ids \<and>
   assignSeat ''9Z'' ''Alice''
     (run_bookings [(''1A'', ''Bob'')]
        \<lparr>sql = snd (initializeSeats 0 [(''sqlite_schema'', [])]), sockets = [],
          getSeats_calls = 0\<rparr>) =
   (Inr seat_not_available,
    run_bookings [(''1A'', ''Bob'')]
        \<lparr>sql = snd (initializeSeats 0 [(''sqlite_schema'', [])]), sockets = [],
          getSeats_calls = 0\<rparr>)"
proof -
  have h1: "[(''sqlite_schema'', [])] \<noteq> ([] :: database)"
    by simp
  have h2: "''seats'' \<notin> set (table_list [(''sqlite_schema'', [])])"
    by (simp add: table_list_def)
  have h3: "''9Z'' \<notin> set seed_ids"
    by (simp add: seed_ids_eval)
  from absent_seat_rejected [OF h1 h2 h3, where occupant = "''Alice''" and
      bs = "[(''1A'', ''Bob'')]" and wss = "[]" and n = 0 and pos = 0] h1 h2 h3
  show ?thesis
    by blast
qed

subsection \<open>Re-seating\<close>

lemma map_of_clear_occupant:
  "map_of (clear_occupant occupant rs) k =
     map_option (\<lambda>v. if v = Some occupant then None else v) (map_of rs k)"
  by (induction rs) (auto simp: clear_occupant_def)

lemma map_of_set_occupant:
  "map_of (set_occupant occupant seatId rs) k =
     (if k = seatId then map_option (\<lambda>_. Some occupant) (map_of rs k) else map_of rs k)"
  by (induction rs) (auto simp: set_occupant_def)

lemma broadcastSeats_None:
  assumes "seats_rows (sql p) = Some rs" and "broadcastSeats p = (None, p')"
  shows "list_all (\<lambda>ws. \<not> send_raises ws) (sockets p)"
proof (rule ccontr)
  assume "\<not> list_all (\<lambda>ws. \<not> send_raises ws) (sockets p)"
  then have "\<exists>ws \<in> set (sockets p). send_raises ws"
    by (simp add: list_all_iff)
  from split_list_first_prop [OF this]
  obtain pre w post where split: "sockets p = pre @ w # post" "send_raises w"
      "\<forall>ws \<in> set pre. \<not> send_raises ws"
    by blast
  then have "list_all (\<lambda>ws. \<not> send_raises ws) pre"
    by (simp add: list_all_iff)
  from broadcastSeats_raise [OF assms(1) split(1) this split(2)] assms(2) show False
    by simp
qed

lemma assignSeat_free:
  assumes "seats_rows (sql p) = Some rs" and "map_of rs seatId = Some None"
    and "list_all (\<lambda>ws. \<not> send_raises ws) (sockets p)"
  shows "assignSeat seatId occupant p =
     (Inr (booked seatId),
      p\<lparr>sql := put_seats (set_occupant occupant seatId (clear_occupant occupant rs)) (sql p),
        sockets := map (pushed (snapshot (set_occupant occupant seatId
                      (clear_occupant occupant rs)))) (sockets p),
        getSeats_calls := getSeats_calls p + length (sockets p)\<rparr>)"
proof -
  let ?rs' = "set_occupant occupant seatId (clear_occupant occupant rs)"
  let ?q = "p\<lparr>sql := put_seats ?rs' (sql p)\<rparr>"
  have rows: "seats_rows (sql ?q) = Some ?rs'"
    using assms(1) by (simp add: seats_rows_put_seats)
  have ok: "list_all (\<lambda>ws. \<not> send_raises ws) (sockets ?q)"
    using assms(3) by simp
  show ?thesis
    by (simp add: assignSeat_rows [OF assms(1)] assms(2) broadcastSeats_all [OF rows ok])
qed

text \<open>
  C2. Re-seating. In a state where the occupant holds seat A and seat B is there and
  free, \<open>assignSeat\<close> of the occupant to B leaves A free and B held by the occupant,
  in every case. If no registered socket's \<open>send\<close> raises, the call returns the success
  response for B, and one broadcast takes place: every socket has received exactly one
  further message, the snapshot of the table after both changes, in which A has no
  occupant and B has this one.
\<close>

theorem reseat_postcondition:
  assumes "occupant_of p seatA = Some (Some occupant)" and "occupant_of p seatB = Some None"
  shows "occupant_of (snd (assignSeat seatB occupant p)) seatA = Some None \<and>
         occupant_of (snd (assignSeat seatB occupant p)) seatB = Some (Some occupant) \<and>
         (list_all (\<lambda>ws. \<not> send_raises ws) (sockets p) \<longrightarrow>
            fst (assignSeat seatB occupant p) = Inr (booked seatB) \<and>
            (\<exists>rs'. seats_rows (sql (snd (assignSeat seatB occupant p))) = Some rs' \<and>
               (seatA, None) \<in> set rs' \<and> (seatB, Some occupant) \<in> set rs' \<and>
               sockets (snd (assignSeat seatB occupant p)) =
                 map (pushed (snapshot rs')) (sockets p)))"
proof -
  from occupant_of_SomeD [OF assms(1)]
  obtain rs where rs: "seats_rows (sql p) = Some rs" "map_of rs seatA = Some (Some occupant)"
    by blast
  have b: "map_of rs seatB = Some None"
    using assms(2) rs(1) by (simp add: occupant_of_def)
  have ne: "seatA \<noteq> seatB"
    using rs(2) b by auto
  let ?rs' = "set_occupant occupant seatB (clear_occupant occupant rs)"
  let ?p' = "snd (assignSeat seatB occupant p)"
  have rows': "seats_rows (sql ?p') = Some ?rs'"
    by (simp add: assignSeat_sql [OF rs(1)] b)
  have a': "map_of ?rs' seatA = Some None"
    using ne rs(2) by (simp add: map_of_set_occupant map_of_clear_occupant)
  have b': "map_of ?rs' seatB = Some (Some occupant)"
    using b by (simp add: map_of_set_occupant map_of_clear_occupant)
  have 1: "occupant_of ?p' seatA = Some None"
    by (simp add: occupant_of_rows [OF rows'] a')
  have 2: "occupant_of ?p' seatB = Some (Some occupant)"
    by (simp add: occupant_of_rows [OF rows'] b')
  have 3: "fst (assignSeat seatB occupant p) = Inr (booked seatB) \<and>
      (\<exists>rs'. seats_rows (sql ?p') = Some rs' \<and>
         (seatA, None) \<in> set rs' \<and> (seatB, Some occupant) \<in> set rs' \<and>
         sockets ?p' = map (pushed (snapshot rs')) (sockets p))"
    if ok: "list_all (\<lambda>ws. \<not> send_raises ws) (sockets p)"
  proof -
    have "sockets ?p' = map (pushed (snapshot ?rs')) (sockets p)"
      and "fst (assignSeat seatB occupant p) = Inr (booked seatB)"
      by (simp_all add: assignSeat_free [OF rs(1) b ok])
    moreover have "(seatA, None) \<in> set ?rs'" "(seatB, Some occupant) \<in> set ?rs'"
      using a' b' by (auto dest: map_of_SomeD)
    ultimately show ?thesis
      using rows' by blast
  qed
  from 1 2 3 show ?thesis
    by blast
qed

theorem reseat_postcondition_witness:
  "occupant_of reseat_state ''1A'' = Some (Some ''Alice'') \<and>
   occupant_of reseat_state ''2A'' = Some None \<and>
   list_all (\<lambda>ws. \<not> send_raises ws) (sockets reseat_state) \<and>
   occupant_of (snd (assignSeat ''2A'' ''Alice'' reseat_state)) ''1A'' = Some None \<and>
   occupant_of (snd (assignSeat ''2A'' ''Alice'' reseat_state)) ''2A'' = Some (Some ''Alice'') \<and>
   fst (assignSeat ''2A'' ''Alice'' reseat_state) = Inr (booked ''2A'')"
proof -
  have h1: "occupant_of reseat_state ''1A'' = Some (Some ''Alice'')"
    and h2: "occupant_of reseat_state ''2A'' = Some None"
    and h3: "list_all (\<lambda>ws. \<not> send_raises ws) (sockets reseat_state)"
    by (simp_all add: reseat_state_def occupant_of_def seats_rows_def)
  from reseat_postcondition [OF h1 h2] h1 h2 h3 show ?thesis
    by blast
qed

text \<open>
  The condition on the sockets cannot be dropped: with one registered socket whose
  \<open>send\<close> raises, the same booking ends in that exception instead of a response.
\<close>

theorem reseat_dead_socket_counterexample:
  "occupant_of reseat_state_dead_socket ''1A'' = Some (Some ''Alice'') \<and>
   occupant_of reseat_state_dead_socket ''2A'' = Some None \<and>
   fst (assignSeat ''2A'' ''Alice'' reseat_state_dead_socket) = Inl SendError"
  by (simp add: reseat_state_dead_socket_def occupant_of_def seats_rows_def assignSeat_def
      select_occupant_def update_clear_def update_assign_def clear_occupant_def set_occupant_def
      broadcastSeats_def getSeats_def select_all_def ws_send_def)

subsection \<open>Broadcast\<close>

text \<open>
  C4. Broadcast fan-out. \<open>broadcastSeats\<close> evaluates \<open>getSeats\<close>, one query and one
  serialization, once for each registered socket it sends to, not once for the whole
  broadcast. The table does not change in between, so when no \<open>send\<close> raises every
  socket receives the same payload, the snapshot of the table, exactly once. In
  particular after a booking that returned success every socket registered before it
  has received exactly one further message, the snapshot of the updated table, and
  \<open>getSeats\<close> has run once per socket.
\<close>

theorem broadcast_fanout:
  assumes "seats_rows (sql p) = Some rs"
  shows "(list_all (\<lambda>ws. \<not> send_raises ws) (sockets p) \<longrightarrow>
            broadcastSeats p =
              (None, p\<lparr>sockets := map (pushed (snapshot rs)) (sockets p),
                        getSeats_calls := getSeats_calls p + length (sockets p)\<rparr>)) \<and>
         (\<forall>p'. assignSeat seatId occupant p = (Inr (booked seatId), p') \<longrightarrow>
            (\<exists>rs'. seats_rows (sql p') = Some rs' \<and>
               sockets p' = map (pushed (snapshot rs')) (sockets p) \<and>
               getSeats_calls p' = getSeats_calls p + length (sockets p)))"
proof (intro conjI impI allI)
  assume "list_all (\<lambda>ws. \<not> send_raises ws) (sockets p)"
  from broadcastSeats_all [OF assms this]
  show "broadcastSeats p =
      (None, p\<lparr>sockets := map (pushed (snapshot rs)) (sockets p),
                getSeats_calls := getSeats_calls p + length (sockets p)\<rparr>)" .
next
  fix p'
  assume ok: "assignSeat seatId occupant p = (Inr (booked seatId), p')"
  let ?rs' = "set_occupant occupant seatId (clear_occupant occupant rs)"
  let ?q = "p\<lparr>sql := put_seats ?rs' (sql p)\<rparr>"
  have rows: "seats_rows (sql ?q) = Some ?rs'"
    using assms by (simp add: seats_rows_put_seats)
  have differ: "booked seatId \<noteq> seat_not_available"
    by (simp add: booked_def seat_not_available_def)
  from ok differ have free: "map_of rs seatId = Some None" and sent: "broadcastSeats ?q = (None, p')"
    by (auto simp: assignSeat_rows [OF assms] split: option.splits prod.splits)
  have "list_all (\<lambda>ws. \<not> send_raises ws) (sockets ?q)"
    by (rule broadcastSeats_None [OF rows sent])
  from broadcastSeats_all [OF rows this] sent
  have "p' = ?q\<lparr>sockets := map (pushed (snapshot ?rs')) (sockets ?q),
                 getSeats_calls := getSeats_calls ?q + length (sockets ?q)\<rparr>"
    by simp
  then have "seats_rows (sql p') = Some ?rs' \<and>
      sockets p' = map (pushed (snapshot ?rs')) (sockets p) \<and>
      getSeats_calls p' = getSeats_calls p + length (sockets p)"
    using rows by simp
  then show "\<exists>rs'. seats_rows (sql p') = Some rs' \<and>
      sockets p' = map (pushed (snapshot rs')) (sockets p) \<and>
      getSeats_calls p' = getSeats_calls p + length (sockets p)"
    by blast
qed

theorem broadcast_fanout_witness:
  "seats_rows (sql two_subscribers) = Some [(''1A'', None)] \<and>
   list_all (\<lambda>ws. \<not> send_raises ws) (sockets two_subscribers) \<and>
   broadcastSeats two_subscribers =
     (None, two_subscribers
        \<lparr>sockets := map (pushed (snapshot [(''1A'', None)])) (sockets two_subscribers),
          getSeats_calls := getSeats_calls two_subscribers + length (sockets two_subscribers)\<rparr>)"
proof -
  have h1: "seats_rows (sql two_subscribers) = Some [(''1A'', None)]"
    and h2: "list_all (\<lambda>ws. \<not> send_raises ws) (sockets two_subscribers)"
    by (simp_all add: two_subscribers_def seats_rows_def)
  from broadcast_fanout [OF h1] h1 h2 show ?thesis
    by blast
qed

text \<open>
  With two registered sockets one broadcast computes the snapshot twice, not once.
\<close>

theorem snapshot_per_subscriber_counterexample:
  "length (sockets two_subscribers) = 2 \<and>
   getSeats_calls two_subscribers = 0 \<and>
   fst (broadcastSeats two_subscribers) = None \<and>
   getSeats_calls (snd (broadcastSeats two_subscribers)) = 2"
  by (simp add: two_subscribers_def broadcastSeats_def getSeats_def select_all_def
      seats_rows_def ws_send_def)

text \<open>
  C9. A failed delivery is not isolated. When the first socket whose \<open>send\<close> raises is
  \<open>w\<close>, the sockets before it in the iteration have received the snapshot, \<open>w\<close> and
  the sockets after it are as they were, and \<open>broadcastSeats\<close> ends in the exception.
  A booking of a free seat in that state ends in the same exception, after the seat has
  been assigned in the table.
\<close>

theorem broadcast_stops_at_failed_send:
  assumes "seats_rows (sql p) = Some rs" and "sockets p = pre @ w # post"
    and "list_all (\<lambda>ws. \<not> send_raises ws) pre" and "send_raises w"
  shows "broadcastSeats p =
           (Some SendError,
            p\<lparr>sockets := map (pushed (snapshot rs)) pre @ w # post,
              getSeats_calls := getSeats_calls p + length pre + 1\<rparr>) \<and>
         (occupant_of p seatId = Some None \<longrightarrow>
            fst (assignSeat seatId occupant p) = Inl SendError \<and>
            occupant_of (snd (assignSeat seatId occupant p)) seatId = Some (Some occupant) \<and>
            drop (length pre) (sockets (snd (assignSeat seatId occupant p))) = w # post)"
proof (intro conjI impI)
  show "broadcastSeats p =
      (Some SendError,
       p\<lparr>sockets := map (pushed (snapshot rs)) pre @ w # post,
         getSeats_calls := getSeats_calls p + length pre + 1\<rparr>)"
    by (rule broadcastSeats_raise [OF assms])
next
  assume "occupant_of p seatId = Some None"
  then have free: "map_of rs seatId = Some None"
    using assms(1) by (simp add: occupant_of_def)
  let ?rs' = "set_occupant occupant seatId (clear_occupant occupant rs)"
  let ?q = "p\<lparr>sql := put_seats ?rs' (sql p)\<rparr>"
  have rows: "seats_rows (sql ?q) = Some ?rs'"
    using assms(1) by (simp add: seats_rows_put_seats)
  have socks: "sockets ?q = pre @ w # post"
    using assms(2) by simp
  have res: "assignSeat seatId occupant p =
      (Inl SendError,
       ?q\<lparr>sockets := map (pushed (snapshot ?rs')) pre @ w # post,
          getSeats_calls := getSeats_calls ?q + length pre + 1\<rparr>)"
    by (simp add: assignSeat_rows [OF assms(1)] free
        broadcastSeats_raise [OF rows socks assms(3,4)])
  show "fst (assignSeat seatId occupant p) = Inl SendError"
    by (simp add: res)
  show "occupant_of (snd (assignSeat seatId occupant p)) seatId = Some (Some occupant)"
    using rows free by (simp add: res occupant_of_def map_of_set_occupant map_of_clear_occupant)
  show "drop (length pre) (sockets (snd (assignSeat seatId occupant p))) = w # post"
    by (simp add: res)
qed

theorem broadcast_stops_at_failed_send_witness:
  "seats_rows (sql first_send_fails) = Some [(''1A'', None)] \<and>
   sockets first_send_fails =
     [] @ \<lparr>received = [], send_raises = True\<rparr> # [\<lparr>received = [], send_raises = False\<rparr>] \<and>
   list_all (\<lambda>ws. \<not> send_raises ws) ([] :: websocket list) \<and>
   send_raises \<lparr>received = [], send_raises = True\<rparr> \<and>
   occupant_of first_send_fails ''1A'' = Some None \<and>
   fst (broadcastSeats first_send_fails) = Some SendError \<and>
   fst (assignSeat ''1A'' ''Alice'' first_send_fails) = Inl SendError"
proof -
  have h1: "seats_rows (sql first_send_fails) = Some [(''1A'', None)]"
    and h2: "sockets first_send_fails =
      [] @ \<lparr>received = [], send_raises = True\<rparr> # [\<lparr>received = [], send_raises = False\<rparr>]"
    and h3: "list_all (\<lambda>ws. \<not> send_raises ws) ([] :: websocket list)"
    and h4: "send_raises \<lparr>received = [], send_raises = True\<rparr>"
    and h5: "occupant_of first_send_fails ''1A'' = Some None"
    by (simp_all add: first_send_fails_def seats_rows_def occupant_of_def)
  from broadcast_stops_at_failed_send [OF h1 h2 h3 h4, of "''1A''" "''Alice''"] h5
  have "fst (broadcastSeats first_send_fails) = Some SendError"
    and "fst (assignSeat ''1A'' ''Alice'' first_send_fails) = Inl SendError"
    by simp_all
  with h1 h2 h3 h4 h5 show ?thesis
    by blast
qed

text \<open>
  Two sockets, the first one failing: the booking raises and the second socket, whose
  \<open>send\<close> would have worked, has received nothing, while the seat is assigned.
\<close>

theorem failed_send_not_isolated_counterexample:
  "map send_raises (sockets first_send_fails) = [True, False] \<and>
   fst (assignSeat ''1A'' ''Alice'' first_send_fails) = Inl SendError \<and>
   map received (sockets (snd (assignSeat ''1A'' ''Alice'' first_send_fails))) = [[], []] \<and>
   occupant_of (snd (assignSeat ''1A'' ''Alice'' first_send_fails)) ''1A'' = Some (Some ''Alice'')"
  by (simp add: first_send_fails_def occupant_of_def seats_rows_def assignSeat_def
      select_occupant_def update_clear_def update_assign_def clear_occupant_def set_occupant_def
      broadcastSeats_def getSeats_def select_all_def ws_send_def)

subsection \<open>Initialization and the request handler\<close>

lemma fetch_get_seats:
  assumes "seats_rows (sql p) = Some rs"
  shows "fetch get_seats_request p =
     (Inr \<lparr>status = 200, body = json_string (snapshot rs),
           headers = [(''Content-Type'', ''application/json'')], webSocket = False\<rparr>,
      p\<lparr>getSeats_calls := getSeats_calls p + 1\<rparr>)"
  by (simp add: fetch_def get_seats_request_def getSeats_rows [OF assms])

lemma json_string_quoted: "hd (json_string s) = CHR 0x22"
  by (simp add: json_string_def)

lemma snapshot_bracket: "hd (snapshot rs) = CHR ''[''"
  by (simp add: snapshot_def json_array_def)

text \<open>
  C5. \<open>GET /seats\<close> answers with content type \<open>application/json\<close>, but its body is
  not the array: \<open>getSeats\<close> already returns the serialized array, and \<open>fetch\<close>
  passes that string through \<open>JSON.stringify\<close> once more. On a table with the one
  free seat 1A a socket would be sent the array text (first equation); the body of the
  response is that text as a JSON string literal, in quotes and with every inner quote
  escaped (second equation).
\<close>

theorem get_seats_body_double_encoded:
  "snapshot [(''1A'', None)] =
     ''[{'' @ [CHR 0x22] @ ''seatNumber'' @ [CHR 0x22] @ '':'' @ [CHR 0x22] @ ''1A'' @ [CHR 0x22] @
     '','' @ [CHR 0x22] @ ''occupant'' @ [CHR 0x22] @ '':null}]'' \<and>
   fetch get_seats_request one_seat =
     (Inr \<lparr>status = 200,
           body = [CHR 0x22] @ ''[{'' @ [CHR 0x5C, CHR 0x22] @ ''seatNumber'' @ [CHR 0x5C, CHR 0x22] @
             '':'' @ [CHR 0x5C, CHR 0x22] @ ''1A'' @ [CHR 0x5C, CHR 0x22] @ '','' @
             [CHR 0x5C, CHR 0x22] @ ''occupant'' @ [CHR 0x5C, CHR 0x22] @ '':null}]'' @ [CHR 0x22],
           headers = [(''Content-Type'', ''application/json'')], webSocket = False\<rparr>,
      one_seat\<lparr>getSeats_calls := 1\<rparr>)"
  by code_simp







subsection \<open>Bodies of \<open>POST /book-seat\<close>\<close>

lemma sql_bind_Str: "sql_bind (Str s) = Some s"
  by (simp add: sql_bind_def)

lemma template_Str: "template (Str s) = s"
  by (simp add: template_def)

lemma select_occupant_bound_Some:
  "select_occupant_bound (Some seatId) db = select_occupant seatId db"
  by (cases "seats_rows db") (simp_all add: select_occupant_bound_def select_occupant_def)

lemma select_occupant_bound_None:
  "seats_rows db = Some rs \<Longrightarrow> select_occupant_bound None db = Inr []"
  by (simp add: select_occupant_bound_def)

lemma update_clear_bound_Some:
  "update_clear_bound (Some occupant) db = update_clear occupant db"
  by (cases "seats_rows db")
     (simp_all add: update_clear_bound_def update_clear_def clear_occupant_def)

lemma update_clear_bound_None:
  "seats_rows db = Some rs \<Longrightarrow> update_clear_bound None db = Inr db"
  by (simp add: update_clear_bound_def put_seats_same)

lemma update_assign_bound_Some:
  "update_assign_bound (Some occupant) (Some seatId) db = update_assign occupant seatId db"
  by (cases "seats_rows db")
     (simp_all add: update_assign_bound_def update_assign_def set_occupant_def)

lemma null_assign_same:
  "distinct (map fst rs) \<Longrightarrow> map_of rs k = Some None \<Longrightarrow>
   map (\<lambda>r. if fst r = k then (fst r, None) else r) rs = rs"
proof (induction rs)
  case Nil
  then show ?case by simp
next
  case (Cons r rs)
  obtain k' v where r: "r = (k', v)" by (cases r)
  show ?case
  proof (cases "k' = k")
    case True
    then have "k \<notin> fst ` set rs"
      using Cons.prems(1) by (auto simp: r)
    then have "map (\<lambda>r. if fst r = k then (fst r, None) else r) rs = rs"
      by (induction rs) auto
    then show ?thesis
      using True Cons.prems(2) by (simp add: r)
  next
    case False
    then show ?thesis
      using Cons by (simp add: r)
  qed
qed

lemma update_assign_bound_None:
  assumes "seats_rows db = Some rs" and "distinct (map fst rs)"
    and "map_of rs seatId = Some None"
  shows "update_assign_bound None (Some seatId) db = Inr db"
  using assms null_assign_same [OF assms(2,3)]
  by (simp add: update_assign_bound_def put_seats_same)

lemma assignSeat_untyped_Str:
  "assignSeat_untyped (Str seatId) (Str occupant) p = assignSeat seatId occupant p"
  by (simp add: assignSeat_untyped_def assignSeat_def sql_bind_Str template_Str
      select_occupant_bound_Some update_clear_bound_Some update_assign_bound_Some
      split: sum.splits list.splits prod.splits option.splits)

lemma assignSeat_untyped_no_seatId:
  assumes "seats_rows (sql p) = Some rs" and "sql_bind seatId = None"
  shows "assignSeat_untyped seatId occupant p = (Inr seat_not_available, p)"
  by (simp add: assignSeat_untyped_def assms(2) select_occupant_bound_None [OF assms(1)])

lemma assignSeat_untyped_no_name:
  assumes "seats_rows (sql p) = Some rs" and "distinct (map fst rs)"
    and "sql_bind occupant = None"
  shows "assignSeat_untyped (Str seatId) occupant p =
     (case map_of rs seatId of
        None \<Rightarrow> (Inr seat_not_available, p)
      | Some (Some other) \<Rightarrow> (Inr seat_not_available, p)
      | Some None \<Rightarrow>
          (case broadcastSeats p of
             (Some e, p') \<Rightarrow> (Inl e, p')
           | (None, p') \<Rightarrow> (Inr (booked seatId), p')))"
proof (cases "map_of rs seatId = Some None")
  case True
  have "p\<lparr>sql := sql p\<rparr> = p"
    by simp
  then show ?thesis
    using True assms(1)
    by (simp add: assignSeat_untyped_def assms(3) sql_bind_Str template_Str
        select_occupant_bound_Some select_occupant_def cursor_first
        update_clear_bound_None [OF assms(1)] update_assign_bound_None [OF assms(1,2) True]
        split: prod.splits option.splits)
next
  case False
  then show ?thesis
    using assms(1)
    by (auto simp: assignSeat_untyped_def sql_bind_Str select_occupant_bound_Some
        select_occupant_def cursor_first split: option.splits)
qed

text \<open>
  C8. \<open>POST /book-seat\<close> does not validate its body. Where the table exists with its
  keys distinct: a body that is not JSON ends \<open>fetch\<close> in a \<open>SyntaxError\<close> and the
  body \<open>null\<close> in a \<open>TypeError\<close>, with no response and the state unchanged; any other
  body without a \<open>seatNumber\<close> (missing or \<open>null\<close>) gets the 400 response, state
  unchanged; a body with a \<open>seatNumber\<close> but without a \<open>name\<close> gets the 400 response
  when that seat is absent or occupied, and when the seat is free it gets the success
  response although nobody is seated: the table stays as it is and, if no \<open>send\<close>
  raises, every socket is pushed the snapshot of it; a body with both as strings is
  \<open>assignSeat\<close> on them.
\<close>

theorem book_seat_malformed_bodies:
  assumes "seats_rows (sql p) = Some rs" and "distinct (map fst rs)"
  shows "fetch \<lparr>httpMethod = ''POST'', pathname = ''/book-seat'', upgrade = u, json = NotJson\<rparr> p =
           (Inl SyntaxError, p) \<and>
         fetch \<lparr>httpMethod = ''POST'', pathname = ''/book-seat'', upgrade = u, json = JsonNull\<rparr> p =
           (Inl TypeError, p) \<and>
         (sql_bind seatNumber = None \<longrightarrow>
            fetch \<lparr>httpMethod = ''POST'', pathname = ''/book-seat'', upgrade = u,
                   json = Json seatNumber name\<rparr> p =
              (Inr seat_not_available, p)) \<and>
         (sql_bind name = None \<and> occupant_of p seatId \<noteq> Some None \<longrightarrow>
            fetch \<lparr>httpMethod = ''POST'', pathname = ''/book-seat'', upgrade = u,
                   json = Json (Str seatId) name\<rparr> p =
              (Inr seat_not_available, p)) \<and>
         (sql_bind name = None \<and> occupant_of p seatId = Some None \<and>
          list_all (\<lambda>ws. \<not> send_raises ws) (sockets p) \<longrightarrow>
            fetch \<lparr>httpMethod = ''POST'', pathname = ''/book-seat'', upgrade = u,
                   json = Json (Str seatId) name\<rparr> p =
              (Inr (booked seatId),
               p\<lparr>sockets := map (pushed (snapshot rs)) (sockets p),
                 getSeats_calls := getSeats_calls p + length (sockets p)\<rparr>)) \<and>
         fetch \<lparr>httpMethod = ''POST'', pathname = ''/book-seat'', upgrade = u,
                json = Json (Str seatId) (Str occupant)\<rparr> p =
           assignSeat seatId occupant p"
proof (intro conjI impI)
  assume "sql_bind seatNumber = None"
  from assignSeat_untyped_no_seatId [OF assms(1) this]
  show "fetch \<lparr>httpMethod = ''POST'', pathname = ''/book-seat'', upgrade = u,
           json = Json seatNumber name\<rparr> p = (Inr seat_not_available, p)"
    by (simp add: fetch_def)
next
  assume a: "sql_bind name = None \<and> occupant_of p seatId \<noteq> Some None"
  then have "map_of rs seatId \<noteq> Some None"
    by (simp add: occupant_of_rows [OF assms(1)])
  then show "fetch \<lparr>httpMethod = ''POST'', pathname = ''/book-seat'', upgrade = u,
           json = Json (Str seatId) name\<rparr> p = (Inr seat_not_available, p)"
    using a by (auto simp: fetch_def assignSeat_untyped_no_name [OF assms] split: option.splits)
next
  assume a: "sql_bind name = None \<and> occupant_of p seatId = Some None \<and>
      list_all (\<lambda>ws. \<not> send_raises ws) (sockets p)"
  then have free: "map_of rs seatId = Some None"
    by (simp add: occupant_of_rows [OF assms(1)])
  from a have ok: "list_all (\<lambda>ws. \<not> send_raises ws) (sockets p)"
    by simp
  show "fetch \<lparr>httpMethod = ''POST'', pathname = ''/book-seat'', upgrade = u,
           json = Json (Str seatId) name\<rparr> p =
      (Inr (booked seatId),
       p\<lparr>sockets := map (pushed (snapshot rs)) (sockets p),
         getSeats_calls := getSeats_calls p + length (sockets p)\<rparr>)"
    using a
    by (simp add: fetch_def assignSeat_untyped_no_name [OF assms] free
        broadcastSeats_all [OF assms(1) ok])
qed (simp_all add: fetch_def assignSeat_untyped_Str)

theorem book_seat_malformed_bodies_witness:
  "seats_rows (sql free_1A) = Some [(''1A'', None), (''1B'', Some ''Bob'')] \<and>
   distinct (map fst [(''1A'', None :: string option), (''1B'', Some ''Bob'')]) \<and>
   sql_bind Undefined = None \<and>
   occupant_of free_1A ''1A'' = Some None \<and>
   occupant_of free_1A ''1B'' = Some (Some ''Bob'') \<and>
   list_all (\<lambda>ws. \<not> send_raises ws) (sockets free_1A) \<and>
   fetch \<lparr>httpMethod = ''POST'', pathname = ''/book-seat'', upgrade = None,
          json = Json Undefined Undefined\<rparr> free_1A = (Inr seat_not_available, free_1A) \<and>
   fetch \<lparr>httpMethod = ''POST'', pathname = ''/book-seat'', upgrade = None,
          json = Json (Str ''1B'') Undefined\<rparr> free_1A = (Inr seat_not_available, free_1A) \<and>
   fetch \<lparr>httpMethod = ''POST'', pathname = ''/book-seat'', upgrade = None,
          json = Json (Str ''1A'') Undefined\<rparr> free_1A =
     (Inr (booked ''1A''),
      free_1A\<lparr>sockets := map (pushed (snapshot [(''1A'', None), (''1B'', Some ''Bob'')]))
                  (sockets free_1A),
              getSeats_calls := getSeats_calls free_1A + length (sockets free_1A)\<rparr>)"
proof -
  let ?rs = "[(''1A'', None), (''1B'', Some ''Bob'')] :: row list"
  have h1: "seats_rows (sql free_1A) = Some ?rs"
    and h2: "distinct (map fst ?rs)"
    and h3: "sql_bind Undefined = None"
    and h4: "occupant_of free_1A ''1A'' = Some None"
    and h5: "occupant_of free_1A ''1B'' = Some (Some ''Bob'')"
    and h6: "list_all (\<lambda>ws. \<not> send_raises ws) (sockets free_1A)"
    by (simp_all add: free_1A_def seats_rows_def occupant_of_def sql_bind_def)
  from h5 have h5': "occupant_of free_1A ''1B'' \<noteq> Some None"
    by simp
  note inst = book_seat_malformed_bodies [OF h1 h2, where u = None and name = Undefined]
  from inst [where seatNumber = Undefined] h3
  have 1: "fetch \<lparr>httpMethod = ''POST'', pathname = ''/book-seat'', upgrade = None,
          json = Json Undefined Undefined\<rparr> free_1A = (Inr seat_not_available, free_1A)"
    by blast
  from inst [where seatId = "''1B''"] h3 h5'
  have 2: "fetch \<lparr>httpMethod = ''POST'', pathname = ''/book-seat'', upgrade = None,
          json = Json (Str ''1B'') Undefined\<rparr> free_1A = (Inr seat_not_available, free_1A)"
    by blast
  from inst [where seatId = "''1A''"] h3 h4 h6
  have 3: "fetch \<lparr>httpMethod = ''POST'', pathname = ''/book-seat'', upgrade = None,
          json = Json (Str ''1A'') Undefined\<rparr> free_1A =
     (Inr (booked ''1A''),
      free_1A\<lparr>sockets := map (pushed (snapshot ?rs)) (sockets free_1A),
              getSeats_calls := getSeats_calls free_1A + length (sockets free_1A)\<rparr>)"
    by blast
  from h1 h2 h3 h4 h5 h6 1 2 3 show ?thesis
    by blast
qed

text \<open>
  Three bodies that get no 400 response: one that is not JSON, \<open>null\<close>, and a free seat
  without a name, which is answered with status 200.
\<close>

theorem malformed_body_counterexample:
  "fetch \<lparr>httpMethod = ''POST'', pathname = ''/book-seat'', upgrade = None, json = NotJson\<rparr>
     \<lparr>sql = [(''seats'', [(''1A'', None)])], sockets = [], getSeats_calls = 0\<rparr> =
   (Inl SyntaxError, \<lparr>sql = [(''seats'', [(''1A'', None)])], sockets = [], getSeats_calls = 0\<rparr>) \<and>
   fetch \<lparr>httpMethod = ''POST'', pathname = ''/book-seat'', upgrade = None, json = JsonNull\<rparr>
     \<lparr>sql = [(''seats'', [(''1A'', None)])], sockets = [], getSeats_calls = 0\<rparr> =
   (Inl TypeError, \<lparr>sql = [(''seats'', [(''1A'', None)])], sockets = [], getSeats_calls = 0\<rparr>) \<and>
   fetch \<lparr>httpMethod = ''POST'', pathname = ''/book-seat'', upgrade = None,
          json = Json (Str ''1A'') Undefined\<rparr>
     \<lparr>sql = [(''seats'', [(''1A'', None)])], sockets = [], getSeats_calls = 0\<rparr> =
   (Inr (booked ''1A''), \<lparr>sql = [(''seats'', [(''1A'', None)])], sockets = [], getSeats_calls = 0\<rparr>) \<and>
   status (booked ''1A'') = 200"
  by (simp add: fetch_def assignSeat_untyped_def select_occupant_bound_def
      update_clear_bound_def update_assign_bound_def sql_bind_def template_def seats_rows_def
      broadcastSeats_def booked_def)

end
